theory Spec2Isabelle
  imports Main
begin

section \<open>Data model (src/main.ts, src/ui/components.ts)\<close>

text \<open>
  JavaScript numbers are modelled as \<open>int\<close>: every number the plugin computes is a
  counter, a quota or a delay in milliseconds, far below \<open>2^53\<close>, where the double
  arithmetic of the source is exact.
\<close>

text \<open>\<^verbatim>\<open>interface SendToVaultSettings\<close>, main.ts lines 4-14 (\<open>alias\<close> is
  renamed: it is an Isabelle keyword).\<close>

record settings =
  uid :: string
  jwt :: string
  email_alias :: string
  lastSyncIso :: string
  autoOpenImported :: bool
  quotaUsed :: int
  quotaLimit :: int
  importsThisMonth :: int
  vaultIdentifier :: string

text \<open>\<^verbatim>\<open>DEFAULT_SETTINGS\<close>, main.ts lines 16-26.\<close>

definition DEFAULT_SETTINGS :: settings where
  "DEFAULT_SETTINGS =
     \<lparr>uid = '''', jwt = '''', email_alias = '''', lastSyncIso = '''', autoOpenImported = True,
      quotaUsed = 0, quotaLimit = 100, importsThisMonth = 0, vaultIdentifier = ''''\<rparr>"

text \<open>\<^verbatim>\<open>interface Note\<close>, main.ts lines 28-33 (\<open>id\<close> is a HOL constant and
  \<open>note\<close> an Isabelle keyword, hence the names).\<close>

record Note =
  note_id :: string
  title :: string
  markdown :: string
  created_iso :: string

text \<open>
  \<^verbatim>\<open>interface DownloadResponse\<close>, main.ts lines 35-40. The optional fields are
  options (\<open>None\<close> is \<^verbatim>\<open>undefined\<close>); \<open>notes\<close> (a keyword, so \<open>resp_notes\<close>) too, since
  \<^verbatim>\<open>poll\<close> itself tests \<^verbatim>\<open>data.notes && Array.isArray(data.notes)\<close>.
\<close>

record download_response =
  resp_notes :: "Note list option"
  over_quota :: bool
  quota_used :: "int option"
  quota_limit :: "int option"

text \<open>\<^verbatim>\<open>interface RegistrationResponse\<close>, components.ts lines 3-8. A field the server
  left out is \<open>None\<close>; the validation of \<^verbatim>\<open>registerWithService\<close> rejects those and
  the empty string alike.\<close>

record registration_response =
  email_address :: "string option"
  passkey :: "string option"
  vault_id :: "string option"
  created_at :: "string option"

text \<open>A thrown JavaScript \<^verbatim>\<open>Error\<close> with its message.\<close>

datatype error = Error (message: string)

section \<open>The host: vault, network, timers\<close>

text \<open>
  The Obsidian API is not part of the repository. The vault is a map from paths to
  files and folders; \<^verbatim>\<open>create\<close> and \<^verbatim>\<open>createFolder\<close> reject when the path is taken,
  \<^verbatim>\<open>modify\<close> when the path is not a file. Any other rejection of a host call (write
  denied, I/O error) is decided by the environment, through \<open>faults\<close>.
\<close>

datatype abstract_file = TFile (data: string) | TFolder

type_synonym vault = "string \<Rightarrow> abstract_file option"

record faults =
  createFolder_fails :: "string \<Rightarrow> bool"
  modify_fails :: "string \<Rightarrow> bool"
  create_fails :: "string \<Rightarrow> bool"
  openFile_fails :: "string \<Rightarrow> bool"
  saveData_fails :: bool

definition getAbstractFileByPath :: "vault \<Rightarrow> string \<Rightarrow> abstract_file option" where
  "getAbstractFileByPath v path = v path"

definition createFolder :: "faults \<Rightarrow> string \<Rightarrow> vault \<Rightarrow> error + vault" where
  "createFolder f path v =
     (if createFolder_fails f path then Inl (Error ''createFolder rejected'')
      else if v path \<noteq> None then Inl (Error ''Folder already exists.'')
      else Inr (v(path \<mapsto> TFolder)))"

definition modify :: "faults \<Rightarrow> string \<Rightarrow> string \<Rightarrow> vault \<Rightarrow> error + vault" where
  "modify f path content v =
     (if modify_fails f path then Inl (Error ''modify rejected'')
      else case v path of
        Some (TFile old) \<Rightarrow> Inr (v(path \<mapsto> TFile content))
      | _ \<Rightarrow> Inl (Error ''Not a file.''))"

definition create :: "faults \<Rightarrow> string \<Rightarrow> string \<Rightarrow> vault \<Rightarrow> error + vault" where
  "create f path content v =
     (if create_fails f path then Inl (Error ''create rejected'')
      else if v path \<noteq> None then Inl (Error ''File already exists.'')
      else Inr (v(path \<mapsto> TFile content)))"

text \<open>\<^verbatim>\<open>TAbstractFile.name\<close>: the last segment of the path of the file.\<close>

definition file_name :: "string \<Rightarrow> string" where
  "file_name path = rev (takeWhile (\<lambda>c. c \<noteq> CHR ''/'') (rev path))"

text \<open>The requests sent with \<^verbatim>\<open>requestUrl\<close>, in order.\<close>

datatype request =
    RegisterRequest (url: string) (client_version: string) (vault_identifier: string)
  | DownloadRequest (url: string) (vault_identifier: string) (req_passkey: string) (since: string)

datatype download_result = Rejected error | Response download_response

datatype registration_result = RegRejected error | RegResponse registration_response

text \<open>
  What one call of \<^verbatim>\<open>poll\<close> finds around it: \<^verbatim>\<open>document.hidden\<close>, the outcome of
  \<^verbatim>\<open>requestUrl\<close> and \<^verbatim>\<open>response.json\<close> (\<open>Rejected\<close> when either throws), the host
  calls that reject, and the ISO rendering of \<^verbatim>\<open>Date.now() - 24h\<close>.
\<close>

record env =
  hidden :: bool
  fetch :: download_result
  host :: faults
  day_ago :: string

section \<open>The plugin and what it changes\<close>

text \<open>
  The fields of \<^verbatim>\<open>SendToVaultPlugin\<close> (main.ts lines 82-86), followed by the host
  state the plugin acts on: the vault, the files opened in the workspace, the notices
  shown, the number of paywall modals opened, the first-run modal, the ribbon badge, the
  quota panel (\<open>None\<close> when no panel is open), the data last persisted with
  \<^verbatim>\<open>saveData\<close>, the requests sent, and the interval timers of the window (identifier
  and period).
\<close>

record plugin =
  settings :: settings
  pollingInterval :: "nat option"
  retryDelay :: int
  maxRetryDelay :: int
  manifest_version :: string
  vault :: vault
  opened :: "string list"
  notices :: "string list"
  paywalls :: nat
  firstRunModal :: "registration_response option"
  badge :: "int option"
  quotaPanel :: "(int \<times> int \<times> int) option"
  saved :: "settings option"
  requests :: "request list"
  timers :: "(nat \<times> int) list"
  next_timer :: nat

definition Notice :: "string \<Rightarrow> plugin \<Rightarrow> plugin" where
  "Notice msg s = s\<lparr>notices := notices s @ [msg]\<rparr>"

text \<open>\<^verbatim>\<open>saveSettings\<close>, main.ts lines 142-144.\<close>

definition saveSettings :: "faults \<Rightarrow> plugin \<Rightarrow> error option \<times> plugin" where
  "saveSettings f s =
     (if saveData_fails f then (Some (Error ''saveData rejected''), s)
      else (None, s\<lparr>saved := Some (settings s)\<rparr>))"

section \<open>Note materialization: \<^verbatim>\<open>saveNote\<close>, main.ts lines 407-441\<close>

text \<open>\<^verbatim>\<open>note.title.replace(/[<>:"/\\|?*]/g, '_')\<close>. The class holds ASCII characters only,
  so replacing bytes and replacing UTF-16 code units agree.\<close>

definition illegal :: "char \<Rightarrow> bool" where
  "illegal c = (c \<in> set [CHR ''<'', CHR ''>'', CHR '':'', CHR 0x22, CHR ''/'', CHR 0x5C,
                          CHR ''|'', CHR ''?'', CHR ''*''])"

definition sanitize :: "string \<Rightarrow> string" where
  "sanitize t = map (\<lambda>c. if illegal c then CHR ''_'' else c) t"

definition note_path :: "Note \<Rightarrow> string" where
  "note_path n = ''Inbox'' @ ''/'' @ sanitize (title n) @ ''.md''"

text \<open>The \<^verbatim>\<open>try\<close> block of \<^verbatim>\<open>saveNote\<close>, lines 420-436: the error it throws, if any,
  and the state at that moment.\<close>

definition saveNote_try :: "faults \<Rightarrow> Note \<Rightarrow> string \<Rightarrow> string \<Rightarrow> plugin \<Rightarrow> error option \<times> plugin" where
  "saveNote_try f n sanitizedTitle filename s =
     (let existingFile = getAbstractFileByPath (vault s) filename in
      if existingFile \<noteq> None \<and> file_name filename = sanitizedTitle @ ''.md'' then
        (case modify f filename (markdown n) (vault s) of
           Inl e \<Rightarrow> (Some e, s)
         | Inr v \<Rightarrow> (None, Notice (''Imported: '' @ title n) (s\<lparr>vault := v\<rparr>)))
      else
        (case create f filename (markdown n) (vault s) of
           Inl e \<Rightarrow> (Some e, s)
         | Inr v \<Rightarrow>
             (let s1 = s\<lparr>vault := v\<rparr> in
              if autoOpenImported (settings s1) then
                (if openFile_fails f filename then (Some (Error ''openFile rejected''), s1)
                 else (None, Notice (''Imported: '' @ title n) (s1\<lparr>opened := opened s1 @ [filename]\<rparr>)))
              else (None, Notice (''Imported: '' @ title n) s1))))"

text \<open>The folder is created before the \<^verbatim>\<open>try\<close> (lines 411-413): a rejection there
  leaves \<^verbatim>\<open>saveNote\<close>; one inside the \<^verbatim>\<open>try\<close> ends in the \<^verbatim>\<open>catch\<close> of lines 437-440.\<close>

definition saveNote :: "faults \<Rightarrow> Note \<Rightarrow> plugin \<Rightarrow> error option \<times> plugin" where
  "saveNote f n s =
     (let inboxFolder = ''Inbox'' in
      case (if getAbstractFileByPath (vault s) inboxFolder = None
            then createFolder f inboxFolder (vault s) else Inr (vault s)) of
        Inl e \<Rightarrow> (Some e, s)
      | Inr v \<Rightarrow>
          (let s1 = s\<lparr>vault := v\<rparr>;
               sanitizedTitle = sanitize (title n);
               filename = inboxFolder @ ''/'' @ sanitizedTitle @ ''.md''
           in case saveNote_try f n sanitizedTitle filename s1 of
                (None, s2) \<Rightarrow> (None, s2)
              | (Some e, s2) \<Rightarrow> (None, Notice (''Failed to save note: '' @ title n) s2)))"

section \<open>The sync engine: \<^verbatim>\<open>poll\<close>, main.ts lines 260-405\<close>

text \<open>
  \<^verbatim>\<open>new Date(a) > new Date(b)\<close>. The parser of the runtime is a parameter \<open>D\<close>: the time
  value in milliseconds, or \<open>None\<close> for an invalid date, whose time value is \<^verbatim>\<open>NaN\<close>
  and compares false with everything.
\<close>

definition date_gt :: "(string \<Rightarrow> int option) \<Rightarrow> string \<Rightarrow> string \<Rightarrow> bool" where
  "date_gt D a b = (case (D a, D b) of (Some x, Some y) \<Rightarrow> x > y | _ \<Rightarrow> False)"

text \<open>Lines 353-355. \<^verbatim>\<open>!latestNoteDate\<close> holds for \<^verbatim>\<open>null\<close> and for the empty string.\<close>

definition track_latest :: "(string \<Rightarrow> int option) \<Rightarrow> Note \<Rightarrow> string option \<Rightarrow> string option" where
  "track_latest D n latestNoteDate =
     (case latestNoteDate of
        None \<Rightarrow> Some (created_iso n)
      | Some l \<Rightarrow> if l = '''' \<or> date_gt D (created_iso n) l then Some (created_iso n) else Some l)"

text \<open>The loop of lines 339-362, with \<^verbatim>\<open>processedCount\<close> and \<^verbatim>\<open>latestNoteDate\<close>.\<close>

fun process_notes ::
  "(string \<Rightarrow> int option) \<Rightarrow> faults \<Rightarrow> Note list \<Rightarrow> plugin \<times> nat \<times> string option
     \<Rightarrow> plugin \<times> nat \<times> string option" where
  "process_notes D f [] acc = acc"
| "process_notes D f (n # rest) (s, processedCount, latestNoteDate) =
     (case saveNote f n s of
        (Some e, s1) \<Rightarrow> process_notes D f rest (s1, processedCount, latestNoteDate)
      | (None, s1) \<Rightarrow>
          process_notes D f rest
            (s1\<lparr>settings := (settings s1)\<lparr>importsThisMonth := importsThisMonth (settings s1) + 1\<rparr>\<rparr>,
             processedCount + 1,
             track_latest D n latestNoteDate))"

text \<open>\<^verbatim>\<open>updateRibbonBadge\<close> (lines 443-457) and \<^verbatim>\<open>updateQuotaPanel\<close> (lines 479-485).\<close>

definition updateRibbonBadge :: "plugin \<Rightarrow> plugin" where
  "updateRibbonBadge s =
     s\<lparr>badge := (if importsThisMonth (settings s) > 0 then Some (importsThisMonth (settings s)) else None)\<rparr>"

definition updateQuotaPanel :: "plugin \<Rightarrow> plugin" where
  "updateQuotaPanel s =
     (case quotaPanel s of
        None \<Rightarrow> s
      | Some old \<Rightarrow>
          s\<lparr>quotaPanel := Some (quotaUsed (settings s), quotaLimit (settings s), importsThisMonth (settings s))\<rparr>)"

text \<open>The request of lines 277-288.\<close>

definition download_request :: "env \<Rightarrow> plugin \<Rightarrow> request" where
  "download_request e s =
     DownloadRequest ''https://api.sendtovault.com/v1/download''
       (vaultIdentifier (settings s)) (jwt (settings s))
       (if lastSyncIso (settings s) \<noteq> '''' then lastSyncIso (settings s) else day_ago e)"

text \<open>Lines 324-331.\<close>

definition update_quota :: "download_response \<Rightarrow> plugin \<Rightarrow> plugin" where
  "update_quota d s =
     (let s1 = (case quota_used d of
                  Some q \<Rightarrow> s\<lparr>settings := (settings s)\<lparr>quotaUsed := q\<rparr>\<rparr>
                | None \<Rightarrow> s)
      in case quota_limit d of
           Some q \<Rightarrow> s1\<lparr>settings := (settings s1)\<lparr>quotaLimit := q\<rparr>\<rparr>
         | None \<Rightarrow> s1)"

text \<open>Lines 370-373. \<^verbatim>\<open>latestNoteDate\<close> is falsy when it is \<^verbatim>\<open>null\<close> or empty.\<close>

definition update_cursor :: "nat \<Rightarrow> string option \<Rightarrow> plugin \<Rightarrow> plugin" where
  "update_cursor processedCount latestNoteDate s =
     (case latestNoteDate of
        Some l \<Rightarrow>
          if processedCount > 0 \<and> l \<noteq> '''' then s\<lparr>settings := (settings s)\<lparr>lastSyncIso := l\<rparr>\<rparr> else s
      | None \<Rightarrow> s)"

text \<open>The \<^verbatim>\<open>try\<close> block of \<^verbatim>\<open>poll\<close>, lines 270-389: the error it throws, if any, and the
  state at that moment.\<close>

definition poll_try :: "(string \<Rightarrow> int option) \<Rightarrow> env \<Rightarrow> plugin \<Rightarrow> error option \<times> plugin" where
  "poll_try D e s =
     (let s0 = s\<lparr>requests := requests s @ [download_request e s]\<rparr> in
      case fetch e of
        Rejected err \<Rightarrow> (Some err, s0)
      | Response d \<Rightarrow>
          (let s1 = update_quota d s0;
               (s2, processedCount, latestNoteDate) =
                  (case resp_notes d of
                     Some ns \<Rightarrow> process_notes D (host e) ns (s1, 0, None)
                   | None \<Rightarrow> (s1, 0, None));
               s3 = update_cursor processedCount latestNoteDate s2
           in case saveSettings (host e) s3 of
                (Some err, s4) \<Rightarrow> (Some err, s4)
              | (None, s4) \<Rightarrow>
                  (let s5 = updateQuotaPanel (updateRibbonBadge s4);
                       s6 = (if over_quota d then s5\<lparr>paywalls := paywalls s5 + 1\<rparr> else s5)
                   in (None, s6\<lparr>retryDelay := 2 * 60 * 1000\<rparr>))))"

text \<open>\<^verbatim>\<open>poll\<close>: the first component is the error the returned promise rejects with.\<close>

definition poll :: "(string \<Rightarrow> int option) \<Rightarrow> env \<Rightarrow> plugin \<Rightarrow> error option \<times> plugin" where
  "poll D e s =
     (if hidden e then (None, s)
      else case poll_try D e s of
             (None, s1) \<Rightarrow> (None, s1)
           | (Some err, s1) \<Rightarrow>
               (None, s1\<lparr>retryDelay := min (retryDelay s1 * 2) (maxRetryDelay s1)\<rparr>))"

text \<open>
  A run of polls, one environment per attempt, each attempt finishing before the next
  starts. The program has no guard against two polls in flight at once (a timer tick, a
  visibility change and a forced sync all call \<^verbatim>\<open>poll\<close>); overlapping attempts are not
  modelled.
\<close>

fun polls :: "(string \<Rightarrow> int option) \<Rightarrow> env list \<Rightarrow> plugin \<Rightarrow> plugin" where
  "polls D [] s = s"
| "polls D (e # es) s = polls D es (snd (poll D e s))"

section \<open>Scheduling: \<^verbatim>\<open>startPolling\<close> and \<^verbatim>\<open>stopPolling\<close>, main.ts lines 235-258\<close>

text \<open>\<^verbatim>\<open>window.setInterval\<close> and \<^verbatim>\<open>window.clearInterval\<close>; identifiers start at 1.\<close>

definition setInterval :: "int \<Rightarrow> plugin \<Rightarrow> nat \<times> plugin" where
  "setInterval period s =
     (next_timer s, s\<lparr>timers := timers s @ [(next_timer s, period)], next_timer := next_timer s + 1\<rparr>)"

definition clearInterval :: "nat \<Rightarrow> plugin \<Rightarrow> plugin" where
  "clearInterval i s = s\<lparr>timers := filter (\<lambda>t. fst t \<noteq> i) (timers s)\<rparr>"

text \<open>\<^verbatim>\<open>if (this.pollingInterval)\<close> is false for \<^verbatim>\<open>undefined\<close> and for 0.\<close>

definition stopPolling :: "plugin \<Rightarrow> plugin" where
  "stopPolling s =
     (case pollingInterval s of
        None \<Rightarrow> s
      | Some i \<Rightarrow> if i \<noteq> 0 then (clearInterval i s)\<lparr>pollingInterval := None\<rparr> else s)"

text \<open>
  \<^verbatim>\<open>this.poll()\<close> is not awaited: it runs up to its first \<^verbatim>\<open>await\<close>, the request, and
  the rest of it, the only part that writes \<^verbatim>\<open>retryDelay\<close>, runs after
  \<^verbatim>\<open>setInterval\<close> has read the delay. So the timer is armed first.
\<close>

definition startPolling :: "(string \<Rightarrow> int option) \<Rightarrow> env \<Rightarrow> plugin \<Rightarrow> plugin" where
  "startPolling D e s =
     (let s1 = stopPolling s;
          (i, s2) = setInterval (retryDelay s1) s1;
          s3 = s2\<lparr>pollingInterval := Some i\<rparr>
      in snd (poll D e s3))"

text \<open>The period of the timer that \<^verbatim>\<open>pollingInterval\<close> names.\<close>

definition polling_period :: "plugin \<Rightarrow> int option" where
  "polling_period s =
     (case pollingInterval s of None \<Rightarrow> None | Some i \<Rightarrow> map_of (timers s) i)"

section \<open>Registration: \<^verbatim>\<open>registerWithService\<close>, main.ts lines 158-233\<close>

definition register_request :: "bool \<Rightarrow> plugin \<Rightarrow> request" where
  "register_request rot s =
     RegisterRequest
       (if rot then ''https://api.sendtovault.com/v1/register?rotate=true''
        else ''https://api.sendtovault.com/v1/register'')
       (manifest_version s) (vaultIdentifier (settings s))"

text \<open>\<^verbatim>\<open>!x\<close> on a string field that may be absent.\<close>

definition falsy :: "string option \<Rightarrow> bool" where
  "falsy x = (x = None \<or> x = Some '''')"

text \<open>\<^verbatim>\<open>String.prototype.includes\<close>.\<close>

fun str_includes :: "string \<Rightarrow> string \<Rightarrow> bool" where
  "str_includes [] sub = (sub = [])"
| "str_includes (c # cs) sub = (take (length sub) (c # cs) = sub \<or> str_includes cs sub)"

text \<open>
  The \<^verbatim>\<open>try\<close> block, lines 160-205. \<^verbatim>\<open>JSON.stringify\<close> is a parameter. The three
  assignments of lines 191-193 are reached with all three fields present.
\<close>

definition register_try ::
  "(registration_response \<Rightarrow> string) \<Rightarrow> bool \<Rightarrow> registration_result \<Rightarrow> faults \<Rightarrow> plugin
     \<Rightarrow> error option \<times> plugin" where
  "register_try stringify rot r f s =
     (let s0 = s\<lparr>requests := requests s @ [register_request rot s]\<rparr> in
      case r of
        RegRejected err \<Rightarrow> (Some err, s0)
      | RegResponse d \<Rightarrow>
          if falsy (email_address d) \<or> falsy (passkey d) \<or> falsy (vault_id d)
          then (Some (Error (''Invalid response data: '' @ stringify d)), s0)
          else
            (case (vault_id d, passkey d, email_address d) of
               (Some v, Some p, Some a) \<Rightarrow>
                 (let s1 = s0\<lparr>settings := (settings s0)\<lparr>uid := v, jwt := p, email_alias := a\<rparr>\<rparr>
                  in case saveSettings f s1 of
                       (Some err, s2) \<Rightarrow> (Some err, s2)
                     | (None, s2) \<Rightarrow>
                         if \<not> rot then (None, s2\<lparr>firstRunModal := Some d\<rparr>)
                         else (None, Notice ''Email alias rotated successfully!'' s2))
             | _ \<Rightarrow> (Some (Error (''Invalid response data: '' @ stringify d)), s0)))"

text \<open>Lines 210-222.\<close>

definition registration_error_message :: "error \<Rightarrow> string" where
  "registration_error_message err =
     ''Failed to register with SendToVault.'' @
     (if str_includes (message err) ''fetch''
        then '' Network connection failed. Check your internet connection.''
      else if str_includes (message err) ''Invalid response''
        then '' Server returned invalid data.''
      else if str_includes (message err) ''status''
        then '' Server error: '' @ message err
      else '' Error: '' @ message err)"

definition registerWithService ::
  "(registration_response \<Rightarrow> string) \<Rightarrow> bool \<Rightarrow> registration_result \<Rightarrow> faults \<Rightarrow> plugin
     \<Rightarrow> error option \<times> plugin" where
  "registerWithService stringify rot r f s =
     (case register_try stringify rot r f s of
        (None, s1) \<Rightarrow> (None, s1)
      | (Some err, s1) \<Rightarrow> (None, Notice (registration_error_message err) s1))"

section \<open>Ordering of timestamps, and the state of a fresh plugin\<close>

text \<open>\<open>a\<close> is not later than \<open>b\<close>, both read by the date parser of the runtime.\<close>

definition date_le :: "(string \<Rightarrow> int option) \<Rightarrow> string \<Rightarrow> string \<Rightarrow> bool" where
  "date_le D a b = (case (D a, D b) of (Some x, Some y) \<Rightarrow> x \<le> y | _ \<Rightarrow> False)"

text \<open>The field initialisers of the class, lines 83-86, around loaded settings and a vault.\<close>

definition new_plugin :: "settings \<Rightarrow> vault \<Rightarrow> plugin" where
  "new_plugin st v =
     \<lparr>settings = st, pollingInterval = None, retryDelay = 10 * 1000,
      maxRetryDelay = 30 * 60 * 1000, manifest_version = ''1.0.0'', vault = v, opened = [],
      notices = [], paywalls = 0, firstRunModal = None, badge = None, quotaPanel = None,
      saved = None, requests = [], timers = [], next_timer = 1\<rparr>"

text \<open>
  The cursor \<open>a\<close> is not after \<open>b\<close>: it is unset (the empty string), or the same
  string, or an earlier or equal time.
\<close>

definition cursor_le :: "(string \<Rightarrow> int option) \<Rightarrow> string \<Rightarrow> string \<Rightarrow> bool" where
  "cursor_le D a b = (a = '''' \<or> a = b \<or> date_le D a b)"

text \<open>The notes of the response an attempt receives, if it receives one.\<close>

definition response_notes :: "env \<Rightarrow> Note list" where
  "response_notes e =
     (case fetch e of
        Rejected err \<Rightarrow> []
      | Response d \<Rightarrow> (case resp_notes d of None \<Rightarrow> [] | Some ns \<Rightarrow> ns))"

text \<open>
  Along a run of polls the server honours \<open>since\<close>: no response holds a note created
  before the cursor as it stands when that poll starts.
\<close>

fun since_respected :: "(string \<Rightarrow> int option) \<Rightarrow> env list \<Rightarrow> plugin \<Rightarrow> bool" where
  "since_respected D [] s = True"
| "since_respected D (e # es) s =
     ((\<forall>n\<in>set (response_notes e). cursor_le D (lastSyncIso (settings s)) (created_iso n)) \<and>
      since_respected D es (snd (poll D e s)))"

text \<open>The path holds a file (not a folder).\<close>

definition is_file :: "vault \<Rightarrow> string \<Rightarrow> bool" where
  "is_file v p = (case v p of Some (TFile c) \<Rightarrow> True | _ \<Rightarrow> False)"

section \<open>Concrete inputs\<close>

text \<open>The settings of a registered installation, and a plugin around them.\<close>

definition registered :: settings where
  "registered = DEFAULT_SETTINGS\<lparr>uid := ''v-1'', jwt := ''pk-1'',
     email_alias := ''me@sendtovault.com'', vaultIdentifier := ''Vault-42''\<rparr>"

text \<open>The date parser on the two timestamps the examples use (their true time values).\<close>

definition two_days :: "string \<Rightarrow> int option" where
  "two_days x =
     (if x = ''2024-01-01T00:00:00.000Z'' then Some 1704067200000
      else if x = ''2024-01-02T00:00:00.000Z'' then Some 1704153600000
      else None)"

text \<open>A host that accepts every call, one that refuses to create files, and one that
  refuses to create folders.\<close>

definition no_faults :: faults where
  "no_faults = \<lparr>createFolder_fails = (\<lambda>p. False), modify_fails = (\<lambda>p. False),
     create_fails = (\<lambda>p. False), openFile_fails = (\<lambda>p. False), saveData_fails = False\<rparr>"

definition write_denied :: faults where
  "write_denied = no_faults\<lparr>create_fails := (\<lambda>p. True)\<rparr>"

definition folder_denied :: faults where
  "folder_denied = no_faults\<lparr>createFolder_fails := (\<lambda>p. True)\<rparr>"

text \<open>Two notes, a day apart; the title of the second needs sanitizing.\<close>

definition hello :: Note where
  "hello = \<lparr>note_id = ''n1'', title = ''Hello'', markdown = ''# Hello'',
     created_iso = ''2024-01-01T00:00:00.000Z''\<rparr>"

definition memo :: Note where
  "memo = \<lparr>note_id = ''n2'', title = ''a/b: c?'', markdown = ''memo'',
     created_iso = ''2024-01-02T00:00:00.000Z''\<rparr>"

text \<open>A vault that holds the Inbox folder and nothing else.\<close>

definition inbox_only :: vault where
  "inbox_only = [''Inbox'' \<mapsto> TFolder]"

text \<open>
  Environments of a poll: a response with the given notes and no quota fields, a request
  that fails, a response with no notes that flags over-quota and carries \<open>quota_used\<close>
  only, and a hidden document.
\<close>

definition respond :: "Note list \<Rightarrow> env" where
  "respond ns =
     \<lparr>hidden = False,
      fetch = Response \<lparr>resp_notes = Some ns, over_quota = False, quota_used = None, quota_limit = None\<rparr>,
      host = no_faults, day_ago = ''2023-12-31T00:00:00.000Z''\<rparr>"

definition offline :: env where
  "offline = (respond [])\<lparr>fetch := Rejected (Error ''net::ERR_INTERNET_DISCONNECTED'')\<rparr>"

definition quota_only :: env where
  "quota_only = \<lparr>hidden = False,
     fetch = Response \<lparr>resp_notes = Some [], over_quota = True, quota_used = Some 100, quota_limit = None\<rparr>,
     host = no_faults, day_ago = ''2023-12-31T00:00:00.000Z''\<rparr>"

definition backgrounded :: env where
  "backgrounded = (respond [hello])\<lparr>hidden := True\<rparr>"

text \<open>
  Plugins as the class initialises them: with the cursor unset, at 1 January, at
  2 January, and with an empty vault.
\<close>

definition fresh :: plugin where
  "fresh = new_plugin registered inbox_only"

definition early :: plugin where
  "early = new_plugin (registered\<lparr>lastSyncIso := ''2024-01-01T00:00:00.000Z''\<rparr>) inbox_only"

definition late :: plugin where
  "late = new_plugin (registered\<lparr>lastSyncIso := ''2024-01-02T00:00:00.000Z''\<rparr>) inbox_only"

definition bare :: plugin where
  "bare = new_plugin registered Map.empty"

text \<open>A registration response without any field, and \<^verbatim>\<open>JSON.stringify\<close> of it.\<close>

definition no_fields :: registration_response where
  "no_fields = \<lparr>email_address = None, passkey = None, vault_id = None, created_at = None\<rparr>"

definition empty_object :: "registration_response \<Rightarrow> string" where
  "empty_object d = ''{}''"

section \<open>What the parts of a poll leave alone\<close>


lemma saveNote_try_core:
  "saveNote_try f n t p s = (r, s1) \<Longrightarrow>
     settings s1 = settings s \<and> retryDelay s1 = retryDelay s \<and> maxRetryDelay s1 = maxRetryDelay s \<and>
     pollingInterval s1 = pollingInterval s \<and> timers s1 = timers s \<and> next_timer s1 = next_timer s \<and>
     requests s1 = requests s \<and> paywalls s1 = paywalls s \<and> saved s1 = saved s \<and>
     badge s1 = badge s \<and> quotaPanel s1 = quotaPanel s \<and> firstRunModal s1 = firstRunModal s \<and>
     manifest_version s1 = manifest_version s"
  by (auto simp: saveNote_try_def Notice_def Let_def split: sum.splits if_splits)

lemma saveNote_core:
  "saveNote f n s = (r, s1) \<Longrightarrow>
     settings s1 = settings s \<and> retryDelay s1 = retryDelay s \<and> maxRetryDelay s1 = maxRetryDelay s \<and>
     pollingInterval s1 = pollingInterval s \<and> timers s1 = timers s \<and> next_timer s1 = next_timer s \<and>
     requests s1 = requests s \<and> paywalls s1 = paywalls s \<and> saved s1 = saved s \<and>
     badge s1 = badge s \<and> quotaPanel s1 = quotaPanel s \<and> firstRunModal s1 = firstRunModal s \<and>
     manifest_version s1 = manifest_version s"
  unfolding saveNote_def Let_def
  by (auto simp: Notice_def split: sum.splits if_splits prod.splits option.splits dest!: saveNote_try_core)

lemma process_notes_core:
  "process_notes D f ns (s, c, l) = (s1, c1, l1) \<Longrightarrow>
     settings s1 = (settings s)\<lparr>importsThisMonth := importsThisMonth (settings s) + int (c1 - c)\<rparr> \<and>
     c \<le> c1 \<and> c1 \<le> c + length ns \<and>
     retryDelay s1 = retryDelay s \<and> maxRetryDelay s1 = maxRetryDelay s \<and>
     pollingInterval s1 = pollingInterval s \<and> timers s1 = timers s \<and> next_timer s1 = next_timer s \<and>
     requests s1 = requests s \<and> paywalls s1 = paywalls s \<and> saved s1 = saved s \<and>
     badge s1 = badge s \<and> quotaPanel s1 = quotaPanel s \<and> firstRunModal s1 = firstRunModal s \<and>
     manifest_version s1 = manifest_version s"
proof (induction ns arbitrary: s c l)
  case Nil
  then show ?case by simp
next
  case (Cons n ns)
  obtain r s2 where sn: "saveNote f n s = (r, s2)" by (cases "saveNote f n s")
  note core = saveNote_core [OF sn]
  show ?case
  proof (cases r)
    case None
    with Cons.prems sn
    have "process_notes D f ns
            (s2\<lparr>settings := (settings s2)\<lparr>importsThisMonth := importsThisMonth (settings s2) + 1\<rparr>\<rparr>,
             c + 1, track_latest D n l) = (s1, c1, l1)" by simp
    from Cons.IH [OF this] core show ?thesis by (auto simp: of_nat_diff)
  next
    case (Some e)
    with Cons.prems sn have "process_notes D f ns (s2, c, l) = (s1, c1, l1)" by simp
    from Cons.IH [OF this] core show ?thesis by auto
  qed
qed

lemma track_latest_mem:
  "track_latest D n l = l \<or> track_latest D n l = Some (created_iso n)"
  by (auto simp: track_latest_def split: option.splits)

lemma process_notes_latest_mem:
  "process_notes D f ns (s, c, l) = (s1, c1, l1) \<Longrightarrow>
     l1 = l \<or> (\<exists>n\<in>set ns. l1 = Some (created_iso n))"
proof (induction ns arbitrary: s c l)
  case Nil
  then show ?case by simp
next
  case (Cons n ns)
  obtain r s2 where sn: "saveNote f n s = (r, s2)" by (cases "saveNote f n s")
  show ?case
  proof (cases r)
    case None
    with Cons.prems sn
    have "process_notes D f ns
            (s2\<lparr>settings := (settings s2)\<lparr>importsThisMonth := importsThisMonth (settings s2) + 1\<rparr>\<rparr>,
             c + 1, track_latest D n l) = (s1, c1, l1)" by simp
    from Cons.IH [OF this] track_latest_mem [of D n l] show ?thesis by auto
  next
    case (Some e)
    with Cons.prems sn have "process_notes D f ns (s2, c, l) = (s1, c1, l1)" by simp
    from Cons.IH [OF this] show ?thesis by auto
  qed
qed

lemma update_quota_core:
  "lastSyncIso (settings (update_quota d s)) = lastSyncIso (settings s) \<and>
   importsThisMonth (settings (update_quota d s)) = importsThisMonth (settings s) \<and>
   retryDelay (update_quota d s) = retryDelay s \<and>
   maxRetryDelay (update_quota d s) = maxRetryDelay s \<and>
   pollingInterval (update_quota d s) = pollingInterval s \<and>
   timers (update_quota d s) = timers s \<and>
   vault (update_quota d s) = vault s"
  by (simp add: update_quota_def Let_def split: option.splits)

lemma update_cursor_core:
  "importsThisMonth (settings (update_cursor c l s)) = importsThisMonth (settings s) \<and>
   retryDelay (update_cursor c l s) = retryDelay s \<and>
   maxRetryDelay (update_cursor c l s) = maxRetryDelay s \<and>
   pollingInterval (update_cursor c l s) = pollingInterval s \<and>
   timers (update_cursor c l s) = timers s \<and>
   vault (update_cursor c l s) = vault s"
  by (simp add: update_cursor_def split: option.splits)

lemma update_cursor_lastSyncIso:
  "lastSyncIso (settings (update_cursor c l s)) =
     (case l of Some x \<Rightarrow> if 0 < c \<and> x \<noteq> '''' then x else lastSyncIso (settings s)
              | None \<Rightarrow> lastSyncIso (settings s))"
  by (simp add: update_cursor_def split: option.splits)

text \<open>What the whole try block does on a response, in one equation per field of interest.\<close>

lemma poll_try_response:
  assumes "fetch e = Response d"
    and "process_notes D (host e) (case resp_notes d of Some ns \<Rightarrow> ns | None \<Rightarrow> [])
           (update_quota d (s\<lparr>requests := requests s @ [download_request e s]\<rparr>), 0, None) = (s2, c, l)"
  shows "poll_try D e s =
     (case saveSettings (host e) (update_cursor c l s2) of
        (Some err, s4) \<Rightarrow> (Some err, s4)
      | (None, s4) \<Rightarrow>
          (None, (if over_quota d
                  then (updateQuotaPanel (updateRibbonBadge s4))
                         \<lparr>paywalls := paywalls (updateQuotaPanel (updateRibbonBadge s4)) + 1\<rparr>
                  else updateQuotaPanel (updateRibbonBadge s4))
                 \<lparr>retryDelay := 2 * 60 * 1000\<rparr>))"
  using assms
  by (cases "resp_notes d") (simp_all add: poll_try_def Let_def split: prod.splits option.splits)

lemma finish_core:
  "settings (updateQuotaPanel (updateRibbonBadge s)) = settings s \<and>
   vault (updateQuotaPanel (updateRibbonBadge s)) = vault s \<and>
   opened (updateQuotaPanel (updateRibbonBadge s)) = opened s \<and>
   paywalls (updateQuotaPanel (updateRibbonBadge s)) = paywalls s \<and>
   timers (updateQuotaPanel (updateRibbonBadge s)) = timers s \<and>
   pollingInterval (updateQuotaPanel (updateRibbonBadge s)) = pollingInterval s"
  by (simp add: updateQuotaPanel_def updateRibbonBadge_def split: option.splits)

lemma poll_response:
  assumes "\<not> hidden e" and "fetch e = Response d"
    and "process_notes D (host e) (case resp_notes d of Some ns \<Rightarrow> ns | None \<Rightarrow> [])
           (update_quota d (s\<lparr>requests := requests s @ [download_request e s]\<rparr>), 0, None) = (s2, c, l)"
  shows "settings (snd (poll D e s)) = settings (update_cursor c l s2)"
    and "vault (snd (poll D e s)) = vault s2"
    and "opened (snd (poll D e s)) = opened s2"
    and "timers (snd (poll D e s)) = timers s"
    and "pollingInterval (snd (poll D e s)) = pollingInterval s"
    and "paywalls (snd (poll D e s)) =
           (if over_quota d \<and> \<not> saveData_fails (host e) then paywalls s + 1 else paywalls s)"
    and "retryDelay (snd (poll D e s)) =
           (if saveData_fails (host e) then min (retryDelay s * 2) (maxRetryDelay s) else 120000)"
    and "fst (poll_try D e s) = (if saveData_fails (host e) then Some (Error ''saveData rejected'') else None)"
proof -
  note pt = poll_try_response [OF assms(2,3)]
  note pc = process_notes_core [OF assms(3)]
  note fc = finish_core [of "(update_cursor c l s2)\<lparr>saved := Some (settings (update_cursor c l s2))\<rparr>"]
  show "settings (snd (poll D e s)) = settings (update_cursor c l s2)"
    using assms(1) pt fc by (simp add: poll_def saveSettings_def)
  show "vault (snd (poll D e s)) = vault s2"
    using assms(1) pt fc by (simp add: poll_def saveSettings_def update_cursor_core)
  show "opened (snd (poll D e s)) = opened s2"
    using assms(1) pt fc by (simp add: poll_def saveSettings_def update_cursor_def split: option.splits)
  show "timers (snd (poll D e s)) = timers s"
    using assms(1) pt fc pc by (simp add: poll_def saveSettings_def update_cursor_core update_quota_core)
  show "pollingInterval (snd (poll D e s)) = pollingInterval s"
    using assms(1) pt fc pc by (simp add: poll_def saveSettings_def update_cursor_core update_quota_core)
  show "paywalls (snd (poll D e s)) =
           (if over_quota d \<and> \<not> saveData_fails (host e) then paywalls s + 1 else paywalls s)"
    using assms(1) pt fc pc
    by (simp add: poll_def saveSettings_def update_cursor_def update_quota_def Let_def split: option.splits)
  show "retryDelay (snd (poll D e s)) =
           (if saveData_fails (host e) then min (retryDelay s * 2) (maxRetryDelay s) else 120000)"
    using assms(1) pt pc by (simp add: poll_def saveSettings_def update_cursor_core update_quota_core)
  show "fst (poll_try D e s) = (if saveData_fails (host e) then Some (Error ''saveData rejected'') else None)"
    using pt by (simp add: saveSettings_def)
qed

lemma poll_rejected:
  assumes "\<not> hidden e" and "fetch e = Rejected err"
  shows "poll D e s =
     (None, s\<lparr>requests := requests s @ [download_request e s],
              retryDelay := min (retryDelay s * 2) (maxRetryDelay s)\<rparr>)"
  using assms by (simp add: poll_def poll_try_def)

lemma poll_cursor:
  "lastSyncIso (settings (snd (poll D e s))) = lastSyncIso (settings s) \<or>
   (lastSyncIso (settings (snd (poll D e s))) \<noteq> '''' \<and>
    (\<exists>n\<in>set (response_notes e). lastSyncIso (settings (snd (poll D e s))) = created_iso n))"
proof (cases "hidden e")
  case True
  then show ?thesis by (simp add: poll_def)
next
  case False
  show ?thesis
  proof (cases "fetch e")
    case (Rejected err)
    from poll_rejected [OF False this] show ?thesis by simp
  next
    case (Response d)
    obtain s2 c l where pn:
      "process_notes D (host e) (case resp_notes d of Some ns \<Rightarrow> ns | None \<Rightarrow> [])
           (update_quota d (s\<lparr>requests := requests s @ [download_request e s]\<rparr>), 0, None) = (s2, c, l)"
      by (metis prod_cases3)
    have rn: "response_notes e = (case resp_notes d of Some ns \<Rightarrow> ns | None \<Rightarrow> [])"
      using Response by (simp add: response_notes_def split: option.splits)
    have old: "lastSyncIso (settings s2) = lastSyncIso (settings s)"
      using process_notes_core [OF pn] by (simp add: update_quota_core)
    from process_notes_latest_mem [OF pn] rn
    have "l = None \<or> (\<exists>n\<in>set (response_notes e). l = Some (created_iso n))" by simp
    then show ?thesis
      using poll_response(1) [OF False Response pn] old
      by (auto simp: update_cursor_lastSyncIso split: if_splits)
  qed
qed

lemma date_le_trans: "date_le D a b \<Longrightarrow> date_le D b c \<Longrightarrow> date_le D a c"
  by (auto simp: date_le_def split: option.splits)

lemma cursor_le_step:
  assumes "cursor_le D a b" and "cursor_le D b c" and "b = a \<or> b \<noteq> ''''"
  shows "cursor_le D a c"
  using assms by (auto simp: cursor_le_def dest: date_le_trans)

text \<open>The definitions a concrete run unfolds.\<close>

lemmas poll_eval = poll_def poll_try_def download_request_def update_quota_def update_cursor_def
  saveSettings_def updateQuotaPanel_def updateRibbonBadge_def saveNote_def saveNote_try_def
  getAbstractFileByPath_def createFolder_def create_def modify_def file_name_def sanitize_def
  illegal_def Notice_def track_latest_def date_gt_def Let_def
  respond_def no_faults_def new_plugin_def registered_def DEFAULT_SETTINGS_def inbox_only_def
  hello_def memo_def two_days_def fresh_def early_def late_def
  write_denied_def folder_denied_def offline_def
  bare_def no_fields_def empty_object_def quota_only_def backgrounded_def

section \<open>What \<^verbatim>\<open>saveNote\<close> does to the vault\<close>

lemma sanitize_no_slash: "CHR ''/'' \<notin> set (sanitize t)"
  by (auto simp: sanitize_def illegal_def)

lemma file_name_note: "file_name (''Inbox'' @ ''/'' @ sanitize t @ ''.md'') = sanitize t @ ''.md''"
proof -
  have "takeWhile (\<lambda>c. c \<noteq> CHR ''/'') (rev (sanitize t) @ ''/xobnI'') = rev (sanitize t)"
    using sanitize_no_slash [of t] by (subst takeWhile_append2) auto
  then show ?thesis by (simp add: file_name_def)
qed

lemma note_path_not_inbox: "note_path n \<noteq> ''Inbox''"
  by (simp add: note_path_def)

lemma saveNote_result:
  "fst (saveNote f n s) =
     (if vault s ''Inbox'' = None \<and> createFolder_fails f ''Inbox''
      then Some (Error ''createFolder rejected'') else None)"
  by (simp add: saveNote_def createFolder_def getAbstractFileByPath_def Let_def split: prod.splits option.splits)

lemma saveNote_vault:
  "vault (snd (saveNote f n s)) =
     (if vault s ''Inbox'' = None \<and> createFolder_fails f ''Inbox'' then vault s
      else (case vault s (note_path n) of
              Some (TFile old) \<Rightarrow>
                if modify_fails f (note_path n) then (if vault s ''Inbox'' = None then (vault s)(''Inbox'' \<mapsto> TFolder) else vault s)
                else (if vault s ''Inbox'' = None then (vault s)(''Inbox'' \<mapsto> TFolder) else vault s)(note_path n \<mapsto> TFile (markdown n))
            | Some TFolder \<Rightarrow> (if vault s ''Inbox'' = None then (vault s)(''Inbox'' \<mapsto> TFolder) else vault s)
            | None \<Rightarrow>
                if create_fails f (note_path n) then (if vault s ''Inbox'' = None then (vault s)(''Inbox'' \<mapsto> TFolder) else vault s)
                else (if vault s ''Inbox'' = None then (vault s)(''Inbox'' \<mapsto> TFolder) else vault s)(note_path n \<mapsto> TFile (markdown n))))"
  using file_name_note [of "title n"]
  by (auto simp: saveNote_def saveNote_try_def createFolder_def create_def modify_def
      getAbstractFileByPath_def Notice_def note_path_def Let_def
      split: prod.splits option.splits abstract_file.splits sum.splits)

lemma saveNote_keeps_inbox:
  "vault s ''Inbox'' \<noteq> None \<or> \<not> createFolder_fails f ''Inbox'' \<Longrightarrow>
     vault (snd (saveNote f n s)) ''Inbox'' \<noteq> None"
  using note_path_not_inbox [of n]
  by (auto simp: saveNote_vault split: option.splits abstract_file.splits)

lemma process_notes_all:
  assumes "vault s ''Inbox'' \<noteq> None \<or> \<not> createFolder_fails f ''Inbox''"
    and "process_notes D f ns (s, c, l) = (s1, c1, l1)"
  shows "c1 = c + length ns \<and> l1 = fold (track_latest D) ns l"
  using assms
proof (induction ns arbitrary: s c l)
  case Nil
  then show ?case by simp
next
  case (Cons n ns)
  obtain r s2 where sn: "saveNote f n s = (r, s2)" by (cases "saveNote f n s")
  from saveNote_result [of f n s] Cons.prems(1) sn have r: "r = None" by auto
  from saveNote_keeps_inbox [OF Cons.prems(1), of n] sn
  have inbox: "vault s2 ''Inbox'' \<noteq> None" by simp
  let ?s3 = "s2\<lparr>settings := (settings s2)\<lparr>importsThisMonth := importsThisMonth (settings s2) + 1\<rparr>\<rparr>"
  from Cons.prems(2) sn r
  have run: "process_notes D f ns (?s3, c + 1, track_latest D n l) = (s1, c1, l1)" by simp
  from inbox have "vault ?s3 ''Inbox'' \<noteq> None \<or> \<not> createFolder_fails f ''Inbox''" by simp
  from Cons.IH [OF this run] show ?case by simp
qed

lemma track_latest_step:
  assumes "created_iso n \<noteq> ''''" and "D (created_iso n) \<noteq> None"
    and "l = None \<or> (\<exists>x. l = Some x \<and> x \<noteq> '''' \<and> D x \<noteq> None)"
  shows "\<exists>x. track_latest D n l = Some x \<and> x \<noteq> '''' \<and> D x \<noteq> None \<and>
      date_le D (created_iso n) x \<and> (\<forall>y. l = Some y \<longrightarrow> date_le D y x) \<and>
      (track_latest D n l = l \<or> x = created_iso n)"
  using assms
  by (cases l) (auto simp: track_latest_def date_gt_def date_le_def)

lemma fold_track_latest:
  assumes "\<forall>n\<in>set ns. created_iso n \<noteq> '''' \<and> D (created_iso n) \<noteq> None"
    and "l = None \<or> (\<exists>x. l = Some x \<and> x \<noteq> '''' \<and> D x \<noteq> None)"
  shows "case fold (track_latest D) ns l of
           None \<Rightarrow> ns = [] \<and> l = None
         | Some m \<Rightarrow> m \<noteq> '''' \<and> D m \<noteq> None \<and> (l = Some m \<or> (\<exists>n\<in>set ns. m = created_iso n)) \<and>
                     (\<forall>n\<in>set ns. date_le D (created_iso n) m) \<and>
                     (\<forall>x. l = Some x \<longrightarrow> date_le D x m)"
  using assms
proof (induction ns arbitrary: l)
  case Nil
  then show ?case by (auto simp: date_le_def split: option.splits)
next
  case (Cons n ns)
  let ?l1 = "track_latest D n l"
  from Cons.prems have "\<exists>x. ?l1 = Some x \<and> x \<noteq> '''' \<and> D x \<noteq> None \<and>
      date_le D (created_iso n) x \<and> (\<forall>y. l = Some y \<longrightarrow> date_le D y x) \<and>
      (?l1 = l \<or> x = created_iso n)"
    by (intro track_latest_step) simp_all
  then obtain x where x: "?l1 = Some x" "x \<noteq> ''''" "D x \<noteq> None"
    "date_le D (created_iso n) x" "\<forall>y. l = Some y \<longrightarrow> date_le D y x" "?l1 = l \<or> x = created_iso n"
    by blast
  from Cons.prems(1) have "\<forall>n\<in>set ns. created_iso n \<noteq> '''' \<and> D (created_iso n) \<noteq> None" by simp
  moreover from x have "?l1 = None \<or> (\<exists>x. ?l1 = Some x \<and> x \<noteq> '''' \<and> D x \<noteq> None)" by simp
  ultimately have IH: "case fold (track_latest D) ns ?l1 of
           None \<Rightarrow> ns = [] \<and> ?l1 = None
         | Some m \<Rightarrow> m \<noteq> '''' \<and> D m \<noteq> None \<and> (?l1 = Some m \<or> (\<exists>n\<in>set ns. m = created_iso n)) \<and>
                     (\<forall>n\<in>set ns. date_le D (created_iso n) m) \<and>
                     (\<forall>x. ?l1 = Some x \<longrightarrow> date_le D x m)"
    by (rule Cons.IH)
  show ?case
  proof (cases "fold (track_latest D) ns ?l1")
    case None
    with IH x show ?thesis by simp
  next
    case (Some m)
    with IH x show ?thesis
      by (auto dest: date_le_trans)
  qed
qed

lemma sanitize_props:
  "length (sanitize t) = length t \<and> (\<forall>c\<in>set (sanitize t). \<not> illegal c)"
  by (auto simp: sanitize_def illegal_def)

lemma saveNote_twice:
  "vault (snd (saveNote f n (snd (saveNote f n s)))) = vault (snd (saveNote f n s))"
proof (cases "vault s ''Inbox'' = None \<and> createFolder_fails f ''Inbox''")
  case True
  then have "vault (snd (saveNote f n s)) = vault s" by (simp add: saveNote_vault)
  with True show ?thesis
    by (simp add: saveNote_vault [of f n "snd (saveNote f n s)"])
next
  case False
  let ?p = "note_path n"
  let ?s1 = "snd (saveNote f n s)"
  define v1 where "v1 = (if vault s ''Inbox'' = None then (vault s)(''Inbox'' \<mapsto> TFolder) else vault s)"
  have p: "?p \<noteq> ''Inbox''" by (rule note_path_not_inbox)
  have v1p: "v1 ?p = vault s ?p" using p by (simp add: v1_def)
  have v1i: "v1 ''Inbox'' \<noteq> None" by (simp add: v1_def)
  from False have nf: "(vault s ''Inbox'' = None \<and> createFolder_fails f ''Inbox'') = False" by simp
  have first: "vault ?s1 =
      (case vault s ?p of
         Some (TFile old) \<Rightarrow> if modify_fails f ?p then v1 else v1(?p \<mapsto> TFile (markdown n))
       | Some TFolder \<Rightarrow> v1
       | None \<Rightarrow> if create_fails f ?p then v1 else v1(?p \<mapsto> TFile (markdown n)))"
    unfolding v1_def by (subst saveNote_vault [of f n s]) (simp only: nf if_False)
  have second: "vault (snd (saveNote f n ?s1)) =
      (case vault ?s1 ?p of
         Some (TFile old) \<Rightarrow> if modify_fails f ?p then vault ?s1 else (vault ?s1)(?p \<mapsto> TFile (markdown n))
       | Some TFolder \<Rightarrow> vault ?s1
       | None \<Rightarrow> if create_fails f ?p then vault ?s1 else (vault ?s1)(?p \<mapsto> TFile (markdown n)))"
    if "(vault ?s1 ''Inbox'' = None) = False"
    by (subst saveNote_vault [of f n ?s1]) (simp only: that if_False simp_thms)
  from first consider (same) "vault ?s1 = v1" | (written) "vault ?s1 = v1(?p \<mapsto> TFile (markdown n))"
    by (auto split: option.splits abstract_file.splits if_splits)
  then show ?thesis
  proof cases
    case same
    with v1i have "(vault ?s1 ''Inbox'' = None) = False" by simp
    from second [OF this]
    have "vault (snd (saveNote f n ?s1)) =
      (case v1 ?p of
         Some (TFile old) \<Rightarrow> if modify_fails f ?p then v1 else v1(?p \<mapsto> TFile (markdown n))
       | Some TFolder \<Rightarrow> v1
       | None \<Rightarrow> if create_fails f ?p then v1 else v1(?p \<mapsto> TFile (markdown n)))"
      by (simp only: same)
    also have "\<dots> = vault ?s1" by (simp only: v1p first [symmetric])
    finally show ?thesis .
  next
    case written
    let ?w = "v1(?p \<mapsto> TFile (markdown n))"
    from written v1i p have "(vault ?s1 ''Inbox'' = None) = False" by simp
    from second [OF this]
    have "vault (snd (saveNote f n ?s1)) =
      (case ?w ?p of
         Some (TFile old) \<Rightarrow> if modify_fails f ?p then ?w else ?w(?p \<mapsto> TFile (markdown n))
       | Some TFolder \<Rightarrow> ?w
       | None \<Rightarrow> if create_fails f ?p then ?w else ?w(?p \<mapsto> TFile (markdown n)))"
      by (simp only: written)
    also have "\<dots> = ?w" by simp
    finally show ?thesis by (simp only: written)
  qed
qed

lemma update_quota_fields:
  "quotaUsed (settings (update_quota d s)) = (case quota_used d of Some q \<Rightarrow> q | None \<Rightarrow> quotaUsed (settings s))"
  "quotaLimit (settings (update_quota d s)) = (case quota_limit d of Some q \<Rightarrow> q | None \<Rightarrow> quotaLimit (settings s))"
  "opened (update_quota d s) = opened s"
  by (simp_all add: update_quota_def Let_def split: option.splits)

section \<open>The sync cursor\<close>

lemma polls_cursor_le:
  "since_respected D es s \<Longrightarrow>
     cursor_le D (lastSyncIso (settings s)) (lastSyncIso (settings (polls D es s)))"
proof (induction es arbitrary: s)
  case Nil
  then show ?case by (simp add: cursor_le_def)
next
  case (Cons e es)
  let ?s1 = "snd (poll D e s)"
  from Cons.prems have notes_ok:
    "\<forall>n\<in>set (response_notes e). cursor_le D (lastSyncIso (settings s)) (created_iso n)"
    and rest: "since_respected D es ?s1" by simp_all
  from poll_cursor [of D e s] notes_ok
  have first: "cursor_le D (lastSyncIso (settings s)) (lastSyncIso (settings ?s1))"
    and shape: "lastSyncIso (settings ?s1) = lastSyncIso (settings s) \<or> lastSyncIso (settings ?s1) \<noteq> ''''"
    by (auto simp: cursor_le_def)
  from cursor_le_step [OF first Cons.IH [OF rest] shape] show ?case by simp
qed

text \<open>
  Claim C1, as the code has it. A poll either leaves \<open>lastSyncIso\<close> as it is or sets it to
  the \<open>created_iso\<close>, not empty, of one of the notes of the response; it never compares
  that value with the old cursor. So, for polls that run one after the other, each
  finishing before the next starts, the cursor does not move backward (it was unset, or
  it keeps its string, or it moves to a time that is not earlier) as long as every note
  of every response has a \<open>created_iso\<close> that is the cursor of that moment or a time not
  earlier than it, any note being admitted while the cursor is unset. Polls that overlap
  in time are outside this statement.
\<close>

theorem cursor_follows_response_notes:
  "(lastSyncIso (settings (snd (poll D e s))) = lastSyncIso (settings s) \<or>
    (lastSyncIso (settings (snd (poll D e s))) \<noteq> '''' \<and>
     (\<exists>n\<in>set (response_notes e). lastSyncIso (settings (snd (poll D e s))) = created_iso n))) \<and>
   (since_respected D es s \<longrightarrow>
      cursor_le D (lastSyncIso (settings s)) (lastSyncIso (settings (polls D es s))))"
  using poll_cursor [of D e s] polls_cursor_le [of D es s] by blast

theorem cursor_follows_response_notes_witness:
  "since_respected two_days [respond [hello], respond [memo]] early \<and>
   lastSyncIso (settings (snd (poll two_days (respond [memo]) early))) = created_iso memo \<and>
   lastSyncIso (settings (polls two_days [respond [hello], respond [memo]] early)) =
     ''2024-01-02T00:00:00.000Z'' \<and>
   cursor_le two_days (lastSyncIso (settings early))
     (lastSyncIso (settings (polls two_days [respond [hello], respond [memo]] early)))"
  using cursor_follows_response_notes [of two_days "respond [memo]" early
      "[respond [hello], respond [memo]]"]
  by (simp add: poll_eval cursor_le_def date_le_def response_notes_def)

text \<open>
  Claim C1 as stated fails: with the cursor at 2 January, a response holding one note
  created on 1 January moves the cursor back to 1 January.
\<close>

theorem cursor_regresses:
  "lastSyncIso (settings late) = ''2024-01-02T00:00:00.000Z'' \<and>
   lastSyncIso (settings (snd (poll two_days (respond [hello]) late))) = ''2024-01-01T00:00:00.000Z'' \<and>
   \<not> cursor_le two_days (lastSyncIso (settings late))
        (lastSyncIso (settings (snd (poll two_days (respond [hello]) late))))"
  by (simp add: poll_eval cursor_le_def date_le_def)

section \<open>A poll in the background\<close>

text \<open>
  Claim C8. A poll that finds the document hidden returns at once: the promise resolves,
  and the state is the state before, so no request was sent and cursor, quota, retry
  delay, vault and timers are untouched.
\<close>

theorem hidden_poll_is_noop: "hidden e \<Longrightarrow> poll D e s = (None, s)"
  by (simp add: poll_def)

theorem hidden_poll_is_noop_witness:
  "hidden backgrounded \<and> poll two_days backgrounded fresh = (None, fresh)"
  using hidden_poll_is_noop [of backgrounded two_days fresh]
  by (simp add: backgrounded_def)

section \<open>A poll whose request or parsing fails\<close>

text \<open>
  Claim C4. When \<^verbatim>\<open>requestUrl\<close> or \<^verbatim>\<open>response.json\<close> throws, the poll resolves without
  an error, and the only changes are the request it sent and the retry delay, which becomes
  \<open>min (2 * retryDelay) maxRetryDelay\<close>: the settings (cursor, quota, import counter),
  the vault and the interval timer are as before, so the next tick polls again.
\<close>

theorem failed_fetch_only_backs_off:
  assumes "\<not> hidden e" and "fetch e = Rejected err"
  shows "poll D e s =
           (None, s\<lparr>requests := requests s @ [download_request e s],
                    retryDelay := min (retryDelay s * 2) (maxRetryDelay s)\<rparr>) \<and>
         settings (snd (poll D e s)) = settings s \<and>
         vault (snd (poll D e s)) = vault s \<and>
         timers (snd (poll D e s)) = timers s \<and>
         pollingInterval (snd (poll D e s)) = pollingInterval s"
  using poll_rejected [OF assms] by simp

theorem failed_fetch_only_backs_off_witness:
  "\<not> hidden offline \<and> fetch offline = Rejected (Error ''net::ERR_INTERNET_DISCONNECTED'') \<and>
   fst (poll two_days offline fresh) = None \<and>
   settings (snd (poll two_days offline fresh)) = settings fresh \<and>
   retryDelay (snd (poll two_days offline fresh)) = 20000"
  using failed_fetch_only_backs_off [of offline "Error ''net::ERR_INTERNET_DISCONNECTED''" two_days fresh]
  by (simp add: offline_def respond_def fresh_def new_plugin_def)

section \<open>The retry delay\<close>

text \<open>
  Claim C3, as the code has it. After a poll that ran (the document was visible), the
  retry delay is \<open>min (2 * previous) maxRetryDelay\<close> when the \<^verbatim>\<open>try\<close> block threw, and
  120000 ms (two minutes, line 386) when it completed. That value is not the initial
  10000 ms of line 85.
\<close>

theorem retry_delay_after_poll:
  assumes "\<not> hidden e"
  shows "retryDelay (snd (poll D e s)) =
           (case fst (poll_try D e s) of
              Some err \<Rightarrow> min (2 * retryDelay s) (maxRetryDelay s)
            | None \<Rightarrow> 2 * 60 * 1000)"
proof (cases "fetch e")
  case (Rejected err)
  from poll_rejected [OF assms this, of D s] Rejected show ?thesis
    by (simp add: poll_try_def mult.commute)
next
  case (Response d)
  obtain s2 c l where pn:
    "process_notes D (host e) (case resp_notes d of Some ns \<Rightarrow> ns | None \<Rightarrow> [])
         (update_quota d (s\<lparr>requests := requests s @ [download_request e s]\<rparr>), 0, None) = (s2, c, l)"
    by (metis prod_cases3)
  from poll_response(7,8) [OF assms Response pn] show ?thesis
    by (simp add: mult.commute)
qed

theorem retry_delay_after_poll_witness:
  "\<not> hidden offline \<and> \<not> hidden (respond []) \<and>
   retryDelay (snd (poll two_days offline fresh)) = 20000 \<and>
   retryDelay (snd (poll two_days (respond []) fresh)) = 120000"
  using retry_delay_after_poll [of offline two_days fresh]
    retry_delay_after_poll [of "respond []" two_days fresh]
  by (simp add: poll_eval)

text \<open>
  Claim C3 as stated fails in its second half: a fresh plugin starts with a delay of
  10000 ms, and after a successful poll the delay is 120000 ms, not the initial value.
\<close>

theorem reset_is_not_initial_delay:
  "fst (poll_try two_days (respond []) fresh) = None \<and>
   retryDelay fresh = 10000 \<and>
   retryDelay (snd (poll two_days (respond []) fresh)) = 120000 \<and>
   retryDelay (snd (poll two_days (respond []) fresh)) \<noteq> retryDelay fresh"
  by (simp add: poll_eval)

section \<open>An empty response that flags over-quota\<close>

text \<open>
  Claim C7. For a successful poll whose response has an empty note list and
  \<open>over_quota\<close> set: the vault and the opened files are as before (no file is created),
  the cursor and the import counter are unchanged, one paywall modal is opened, and
  \<open>quotaUsed\<close> and \<open>quotaLimit\<close> take the values of the response where it has them and
  keep their stored values where it has not.
\<close>

theorem empty_over_quota_response:
  assumes "\<not> hidden e" and "fetch e = Response d" and "resp_notes d = Some []"
    and "over_quota d" and "\<not> saveData_fails (host e)"
  shows "fst (poll_try D e s) = None \<and>
         vault (snd (poll D e s)) = vault s \<and>
         opened (snd (poll D e s)) = opened s \<and>
         lastSyncIso (settings (snd (poll D e s))) = lastSyncIso (settings s) \<and>
         importsThisMonth (settings (snd (poll D e s))) = importsThisMonth (settings s) \<and>
         paywalls (snd (poll D e s)) = paywalls s + 1 \<and>
         quotaUsed (settings (snd (poll D e s))) =
           (case quota_used d of Some q \<Rightarrow> q | None \<Rightarrow> quotaUsed (settings s)) \<and>
         quotaLimit (settings (snd (poll D e s))) =
           (case quota_limit d of Some q \<Rightarrow> q | None \<Rightarrow> quotaLimit (settings s))"
proof -
  let ?s1 = "update_quota d (s\<lparr>requests := requests s @ [download_request e s]\<rparr>)"
  have pn: "process_notes D (host e) (case resp_notes d of Some ns \<Rightarrow> ns | None \<Rightarrow> [])
         (?s1, 0, None) = (?s1, 0, None)"
    using assms(3) by simp
  note pr = poll_response [OF assms(1,2) pn]
  have st: "settings (snd (poll D e s)) = settings ?s1"
    using pr(1) by (simp add: update_cursor_def)
  show ?thesis
    using pr(2,3,6,8) assms(4,5) st
    by (simp add: update_quota_core update_quota_fields split: option.splits)
qed

theorem empty_over_quota_response_witness:
  "\<not> hidden quota_only \<and>
   fst (poll_try two_days quota_only late) = None \<and>
   vault (snd (poll two_days quota_only late)) = vault late \<and>
   paywalls (snd (poll two_days quota_only late)) = 1 \<and>
   lastSyncIso (settings (snd (poll two_days quota_only late))) = ''2024-01-02T00:00:00.000Z'' \<and>
   quotaUsed (settings (snd (poll two_days quota_only late))) = 100 \<and>
   quotaLimit (settings (snd (poll two_days quota_only late))) = 100"
  using empty_over_quota_response [of quota_only
      "\<lparr>resp_notes = Some [], over_quota = True, quota_used = Some 100, quota_limit = None\<rparr>"
      two_days late]
  by (simp add: quota_only_def no_faults_def late_def new_plugin_def registered_def DEFAULT_SETTINGS_def)

section \<open>Registration\<close>

text \<open>
  Claim C5. When the registration response lacks the email address, the passkey or the
  vault id (absent or empty), the \<^verbatim>\<open>try\<close> block throws the error
  \<open>Invalid response data: ...\<close> before any assignment: the attempt ends with a notice,
  and the stored settings (uid, jwt, alias among them) and the persisted data are
  unchanged.
\<close>

theorem incomplete_registration_rejected:
  assumes "falsy (email_address d) \<or> falsy (passkey d) \<or> falsy (vault_id d)"
  shows "register_try stringify rot (RegResponse d) f s =
           (Some (Error (''Invalid response data: '' @ stringify d)),
            s\<lparr>requests := requests s @ [register_request rot s]\<rparr>) \<and>
         registerWithService stringify rot (RegResponse d) f s =
           (None, Notice (registration_error_message (Error (''Invalid response data: '' @ stringify d)))
                    (s\<lparr>requests := requests s @ [register_request rot s]\<rparr>)) \<and>
         settings (snd (registerWithService stringify rot (RegResponse d) f s)) = settings s \<and>
         saved (snd (registerWithService stringify rot (RegResponse d) f s)) = saved s"
  using assms by (simp add: registerWithService_def register_try_def Notice_def)

theorem incomplete_registration_rejected_witness:
  "falsy (passkey no_fields) \<and>
   fst (register_try empty_object False (RegResponse no_fields) no_faults (new_plugin DEFAULT_SETTINGS inbox_only))
     = Some (Error ''Invalid response data: {}'') \<and>
   settings (snd (registerWithService empty_object False (RegResponse no_fields) no_faults
      (new_plugin DEFAULT_SETTINGS inbox_only))) = DEFAULT_SETTINGS \<and>
   notices (snd (registerWithService empty_object False (RegResponse no_fields) no_faults
      (new_plugin DEFAULT_SETTINGS inbox_only))) =
     [''Failed to register with SendToVault. Server returned invalid data.'']"
  using incomplete_registration_rejected [of no_fields empty_object False no_faults
      "new_plugin DEFAULT_SETTINGS inbox_only"]
  by (simp add: falsy_def no_fields_def empty_object_def new_plugin_def Notice_def
      registration_error_message_def)

section \<open>The polling timer\<close>

text \<open>
  Claim C9 does not hold of the code: \<^verbatim>\<open>startPolling\<close> arms one interval timer with the
  delay of that moment, and \<^verbatim>\<open>poll\<close> changes \<^verbatim>\<open>retryDelay\<close> without ever re-arming it.
  Started on a fresh plugin while the network is down, the timer keeps its period of
  10000 ms while the retry delay grows to 20000 and, two failed ticks later, to 80000.
\<close>

theorem backoff_never_rearms_timer:
  "polling_period (startPolling two_days offline fresh) = Some 10000 \<and>
   retryDelay (startPolling two_days offline fresh) = 20000 \<and>
   polling_period (polls two_days [offline, offline] (startPolling two_days offline fresh)) = Some 10000 \<and>
   retryDelay (polls two_days [offline, offline] (startPolling two_days offline fresh)) = 80000"
  by (simp add: startPolling_def stopPolling_def setInterval_def polling_period_def poll_eval)

section \<open>Notes whose file was not written\<close>

text \<open>
  Claim C2 does not hold of the code. With the Inbox folder present and the host refusing
  to create files, a response of one note leaves no file at the path of the note and a
  notice of the failure, yet the import counter goes up by one and the cursor moves to the
  \<open>created_iso\<close> of that note: \<^verbatim>\<open>saveNote\<close> swallowed the error that the loop of
  \<^verbatim>\<open>poll\<close> was waiting for.
\<close>

theorem failed_write_counts_as_import:
  "vault (snd (poll two_days ((respond [hello])\<lparr>host := write_denied\<rparr>) fresh)) (note_path hello) = None \<and>
   notices (snd (poll two_days ((respond [hello])\<lparr>host := write_denied\<rparr>) fresh)) =
     [''Failed to save note: Hello''] \<and>
   importsThisMonth (settings (snd (poll two_days ((respond [hello])\<lparr>host := write_denied\<rparr>) fresh))) =
     importsThisMonth (settings fresh) + 1 \<and>
   lastSyncIso (settings fresh) = '''' \<and>
   lastSyncIso (settings (snd (poll two_days ((respond [hello])\<lparr>host := write_denied\<rparr>) fresh))) =
     created_iso hello"
  by (simp add: poll_eval note_path_def)

section \<open>Materializing a note\<close>

text \<open>
  Claim C6. The path of a note is \<open>Inbox/\<close>, the title with every illegal character
  replaced by an underscore, and \<open>.md\<close>. When the host accepts the calls: if nothing is at
  that path, \<^verbatim>\<open>saveNote\<close> creates the file with the body of the note, and the files of the
  vault are those of before and this one; if a file is at that path, its content becomes
  the body of the note and the vault has the same files; every other file keeps its
  content; and saving the same note a second time leaves the vault as the first time left
  it.
\<close>

theorem saveNote_creates_or_overwrites:
  assumes "\<not> createFolder_fails f ''Inbox''"
    and "\<not> create_fails f (note_path n)" and "\<not> modify_fails f (note_path n)"
  shows "note_path n = ''Inbox/'' @ sanitize (title n) @ ''.md'' \<and>
         length (sanitize (title n)) = length (title n) \<and>
         (\<forall>i<length (title n).
            sanitize (title n) ! i = (if illegal (title n ! i) then CHR ''_'' else title n ! i)) \<and>
         (vault s (note_path n) = None \<longrightarrow>
            vault (snd (saveNote f n s)) (note_path n) = Some (TFile (markdown n)) \<and>
            (\<forall>q. is_file (vault (snd (saveNote f n s))) q = (q = note_path n \<or> is_file (vault s) q))) \<and>
         (is_file (vault s) (note_path n) \<longrightarrow>
            vault (snd (saveNote f n s)) (note_path n) = Some (TFile (markdown n)) \<and>
            (\<forall>q. is_file (vault (snd (saveNote f n s))) q = is_file (vault s) q)) \<and>
         (\<forall>q. q \<noteq> note_path n \<longrightarrow> is_file (vault s) q \<longrightarrow> vault (snd (saveNote f n s)) q = vault s q) \<and>
         vault (snd (saveNote f n (snd (saveNote f n s)))) = vault (snd (saveNote f n s))"
proof -
  have p: "note_path n \<noteq> ''Inbox''" by (rule note_path_not_inbox)
  have a: "note_path n = ''Inbox/'' @ sanitize (title n) @ ''.md''"
    by (simp add: note_path_def)
  have b: "length (sanitize (title n)) = length (title n)"
    by (simp add: sanitize_def)
  have c: "\<forall>i<length (title n).
            sanitize (title n) ! i = (if illegal (title n ! i) then CHR ''_'' else title n ! i)"
    by (simp add: sanitize_def)
  have d: "vault s (note_path n) = None \<longrightarrow>
            vault (snd (saveNote f n s)) (note_path n) = Some (TFile (markdown n)) \<and>
            (\<forall>q. is_file (vault (snd (saveNote f n s))) q = (q = note_path n \<or> is_file (vault s) q))"
    using assms p by (auto simp: saveNote_vault is_file_def)
  have e: "is_file (vault s) (note_path n) \<longrightarrow>
            vault (snd (saveNote f n s)) (note_path n) = Some (TFile (markdown n)) \<and>
            (\<forall>q. is_file (vault (snd (saveNote f n s))) q = is_file (vault s) q)"
    using assms p by (auto simp: saveNote_vault is_file_def split: option.splits abstract_file.splits)
  have g: "\<forall>q. q \<noteq> note_path n \<longrightarrow> is_file (vault s) q \<longrightarrow> vault (snd (saveNote f n s)) q = vault s q"
    using assms p by (auto simp: saveNote_vault is_file_def split: option.splits abstract_file.splits)
  from a b c d e g saveNote_twice [of f n s] show ?thesis by blast
qed

theorem saveNote_creates_or_overwrites_witness:
  "\<not> createFolder_fails no_faults ''Inbox'' \<and> \<not> create_fails no_faults (note_path memo) \<and>
   \<not> modify_fails no_faults (note_path memo) \<and>
   note_path memo = ''Inbox/a_b_ c_.md'' \<and>
   vault fresh (note_path memo) = None \<and>
   vault (snd (saveNote no_faults memo fresh)) (note_path memo) = Some (TFile ''memo'') \<and>
   is_file (vault (snd (saveNote no_faults memo fresh))) ''Inbox/a_b_ c_.md'' \<and>
   is_file (vault (snd (saveNote no_faults (memo\<lparr>markdown := ''v2''\<rparr>) (snd (saveNote no_faults memo fresh)))))
     ''Inbox/a_b_ c_.md''"
  using saveNote_creates_or_overwrites [of no_faults memo fresh]
    saveNote_creates_or_overwrites [of no_faults "memo\<lparr>markdown := ''v2''\<rparr>" "snd (saveNote no_faults memo fresh)"]
  by (simp add: no_faults_def note_path_def sanitize_def illegal_def memo_def fresh_def new_plugin_def
      inbox_only_def is_file_def)

section \<open>What the loop of \<^verbatim>\<open>poll\<close> counts\<close>

text \<open>
  Claim C10, as the code has it. \<^verbatim>\<open>saveNote\<close> catches what its \<^verbatim>\<open>try\<close> block throws,
  but the Inbox folder is created before that block. So, for a successful poll with a
  note list of length N, when the Inbox folder exists or the host accepts its creation:
  \<^verbatim>\<open>saveNote\<close> returns normally, \<^verbatim>\<open>processedCount\<close> ends at N, the import counter
  rises by N, and (the timestamps being non-empty and valid) the cursor is the
  \<open>created_iso\<close> of a note of the list that no note of the list is later than, whatever
  happened to the file writes.
\<close>

theorem only_folder_failure_skips_a_note:
  assumes "\<not> hidden e" and "fetch e = Response d" and "resp_notes d = Some ns"
    and "\<not> saveData_fails (host e)"
    and "vault s ''Inbox'' \<noteq> None \<or> \<not> createFolder_fails (host e) ''Inbox''"
  shows "fst (saveNote (host e) n s) = None \<and>
         fst (snd (process_notes D (host e) ns
                (update_quota d (s\<lparr>requests := requests s @ [download_request e s]\<rparr>), 0, None))) = length ns \<and>
         importsThisMonth (settings (snd (poll D e s))) = importsThisMonth (settings s) + int (length ns) \<and>
         (ns \<noteq> [] \<longrightarrow> (\<forall>n\<in>set ns. created_iso n \<noteq> '''' \<and> D (created_iso n) \<noteq> None) \<longrightarrow>
            (\<exists>m\<in>set ns. lastSyncIso (settings (snd (poll D e s))) = created_iso m \<and>
                          (\<forall>n\<in>set ns. date_le D (created_iso n) (created_iso m))))"
proof -
  let ?s1 = "update_quota d (s\<lparr>requests := requests s @ [download_request e s]\<rparr>)"
  obtain s2 c l where pn0: "process_notes D (host e) ns (?s1, 0, None) = (s2, c, l)"
    by (metis prod_cases3)
  with assms(3) have pn:
    "process_notes D (host e) (case resp_notes d of Some ns \<Rightarrow> ns | None \<Rightarrow> []) (?s1, 0, None) = (s2, c, l)"
    by simp
  have inbox: "vault ?s1 ''Inbox'' \<noteq> None \<or> \<not> createFolder_fails (host e) ''Inbox''"
    using assms(5) by (simp add: update_quota_core)
  from process_notes_all [OF inbox pn0]
  have c: "c = length ns" and l: "l = fold (track_latest D) ns None" by simp_all
  note core = process_notes_core [OF pn0]
  note st = poll_response(1) [OF assms(1,2) pn]
  have first: "fst (saveNote (host e) n s) = None"
    using assms(5) by (auto simp: saveNote_result)
  have count: "fst (snd (process_notes D (host e) ns (?s1, 0, None))) = length ns"
    using pn0 c by simp
  have imps: "importsThisMonth (settings (snd (poll D e s))) = importsThisMonth (settings s) + int (length ns)"
    using st core c by (simp add: update_cursor_core update_quota_core)
  have cursor: "\<exists>m\<in>set ns. lastSyncIso (settings (snd (poll D e s))) = created_iso m \<and>
                          (\<forall>n\<in>set ns. date_le D (created_iso n) (created_iso m))"
    if ne: "ns \<noteq> []" and valid: "\<forall>n\<in>set ns. created_iso n \<noteq> '''' \<and> D (created_iso n) \<noteq> None"
  proof -
    from fold_track_latest [OF valid, of None] ne l
    obtain m where m: "l = Some m" "m \<noteq> ''''" "\<exists>n\<in>set ns. m = created_iso n"
      "\<forall>n\<in>set ns. date_le D (created_iso n) m"
      by (cases "fold (track_latest D) ns None") auto
    from ne c have "0 < c" by simp
    with st m have "lastSyncIso (settings (snd (poll D e s))) = m"
      by (simp add: update_cursor_lastSyncIso)
    with m show ?thesis by auto
  qed
  from first count imps cursor show ?thesis by blast
qed

theorem only_folder_failure_skips_a_note_witness:
  "\<not> hidden ((respond [hello, memo])\<lparr>host := write_denied\<rparr>) \<and>
   vault fresh ''Inbox'' = Some TFolder \<and>
   vault (snd (poll two_days ((respond [hello, memo])\<lparr>host := write_denied\<rparr>) fresh)) (note_path hello) = None \<and>
   vault (snd (poll two_days ((respond [hello, memo])\<lparr>host := write_denied\<rparr>) fresh)) (note_path memo) = None \<and>
   importsThisMonth (settings (snd (poll two_days ((respond [hello, memo])\<lparr>host := write_denied\<rparr>) fresh))) = 2 \<and>
   lastSyncIso (settings (snd (poll two_days ((respond [hello, memo])\<lparr>host := write_denied\<rparr>) fresh))) =
     created_iso memo"
  using only_folder_failure_skips_a_note [of "(respond [hello, memo])\<lparr>host := write_denied\<rparr>"
      "\<lparr>resp_notes = Some [hello, memo], over_quota = False, quota_used = None, quota_limit = None\<rparr>"
      "[hello, memo]" fresh hello two_days]
  by (simp add: poll_eval note_path_def)

text \<open>
  Claim C10 as stated fails: with no Inbox folder and the host refusing to create it,
  \<^verbatim>\<open>saveNote\<close> rejects, the per-note \<^verbatim>\<open>catch\<close> of \<^verbatim>\<open>poll\<close> runs, and a successful poll
  with one note leaves the import counter and the cursor where they were.
\<close>

theorem folder_failure_leaves_saveNote:
  "fst (saveNote folder_denied hello bare) = Some (Error ''createFolder rejected'') \<and>
   fst (poll_try two_days ((respond [hello])\<lparr>host := folder_denied\<rparr>) bare) = None \<and>
   importsThisMonth (settings (snd (poll two_days ((respond [hello])\<lparr>host := folder_denied\<rparr>) bare))) =
     importsThisMonth (settings bare) \<and>
   lastSyncIso (settings (snd (poll two_days ((respond [hello])\<lparr>host := folder_denied\<rparr>) bare))) =
     lastSyncIso (settings bare)"
  by (simp add: poll_eval)


end
